theory Spec2Isabelle
  imports Main
begin

section \<open>Python values, errors and the world outside the module\<close>

text \<open>
  The module \<^verbatim>\<open>sql_db/core.py\<close> is dynamically typed and checks the types of some of its
  arguments at run time, so arguments are values of \<open>pyval\<close>. Objects of the libraries
  (engines, connections, cursors, data frames) are opaque handles.
\<close>

datatype pyval = PNone | PBool bool | PInt int | PStr string | PList "pyval list"

type_synonym obj = nat

text \<open>\<^verbatim>\<open>isinstance(x, six.string_types)\<close> and \<^verbatim>\<open>isinstance(x, list)\<close>.\<close>

fun is_string :: "pyval \<Rightarrow> bool" where
  "is_string (PStr s) = True"
| "is_string v = False"

fun is_list :: "pyval \<Rightarrow> bool" where
  "is_list (PList xs) = True"
| "is_list v = False"

text \<open>The truth value Python gives a value in \<^verbatim>\<open>if not silent\<close>.\<close>

fun truthy :: "pyval \<Rightarrow> bool" where
  "truthy PNone = False"
| "truthy (PBool b) = b"
| "truthy (PInt i) = (i \<noteq> 0)"
| "truthy (PStr s) = (s \<noteq> [])"
| "truthy (PList xs) = (xs \<noteq> [])"

text \<open>
  The exceptions. \<open>TypeError\<close>, \<open>Exception\<close> and \<open>NotImplementedError\<close> are raised by the
  module with the message given; \<open>Exception m c\<close> is \<^verbatim>\<open>raise Exception(m) from c\<close>.
  \<open>ValueError\<close> is the interpreter's error for unpacking a list of the wrong length into two
  names, \<open>DuplicateKeyword k\<close> its error for a call that passes keyword \<open>k\<close> twice, and
  \<open>DriverError n\<close> is whatever a library call raised, passed on unchanged.
\<close>

datatype error =
    TypeError string
  | ValueError
  | Exception string error
  | NotImplementedError
  | DuplicateKeyword string
  | DriverError nat

text \<open>The calls the module makes into sqlalchemy, pandas and the driver, with their arguments.\<close>

datatype call =
    CreateEngine string "(string \<times> pyval) list"
  | Connect obj
  | ConClose obj
  | ReadSql string obj
  | ToSql obj string pyval string obj pyval "(string \<times> pyval) list"
  | RawConnection obj
  | Cursor obj
  | Execute obj string "pyval list"
  | Commit obj

datatype outcome = Returns obj | Raises nat

text \<open>
  What the module does not define is a parameter: \<open>format\<close> is the text an f-string puts
  for a value that is not a string, and \<open>respond\<close> is the libraries' answer to a call,
  which may depend on every call made before it.
\<close>

record runtime =
  format :: "pyval \<Rightarrow> string"
  respond :: "call list \<Rightarrow> call \<Rightarrow> outcome"

record world =
  calls :: "call list"
  stdout :: "string list"

fun fstr :: "runtime \<Rightarrow> pyval \<Rightarrow> string" where
  "fstr rt (PStr s) = s"
| "fstr rt v = format rt v"

definition perform :: "runtime \<Rightarrow> call \<Rightarrow> world \<Rightarrow> (error + obj) \<times> world" where
  "perform rt c w =
     (case respond rt (calls w) c of
        Returns v \<Rightarrow> (Inr v, w\<lparr>calls := calls w @ [c]\<rparr>)
      | Raises n \<Rightarrow> (Inl (DriverError n), w\<lparr>calls := calls w @ [c]\<rparr>))"

definition print :: "string \<Rightarrow> world \<Rightarrow> world" where
  "print message w = w\<lparr>stdout := stdout w @ [message]\<rparr>"

definition nl :: string where
  "nl = [CHR 0x0A]"

text \<open>\<^verbatim>\<open>n * symbol\<close> on a string, \<^verbatim>\<open>sep.join(parts)\<close> and \<^verbatim>\<open>s.split(sep)\<close> for a separator of one character.\<close>

definition repeat :: "nat \<Rightarrow> string \<Rightarrow> string" where
  "repeat n symbol = concat (replicate n symbol)"

fun join :: "string \<Rightarrow> string list \<Rightarrow> string" where
  "join sep [] = []"
| "join sep [p] = p"
| "join sep (p # q # ps) = p @ sep @ join sep (q # ps)"

fun split_on :: "char \<Rightarrow> string \<Rightarrow> string list" where
  "split_on sep [] = [[]]"
| "split_on sep (c # cs) =
     (if c = sep then [] # split_on sep cs
      else (case split_on sep cs of
              [] \<Rightarrow> [[c]]
            | p # ps \<Rightarrow> (c # p) # ps))"

section \<open>SQLSession\<close>

datatype dialect = MSSQLSession | PostgreSQLSession

text \<open>
  The attributes in the order \<^verbatim>\<open>__init__\<close> assigns them. \<open>make_engine\<close> and
  \<open>print_message\<close> run before the last four exist, so they are defined on the first part.
\<close>

record credentials =
  cls :: dialect
  server :: pyval
  port :: pyval
  db :: pyval
  user :: pyval
  password :: pyval

record session = credentials +
  engine :: obj
  con :: obj
  is_connected :: bool
  is_silent :: pyval

definition print_message :: "runtime \<Rightarrow> string \<Rightarrow> 'a credentials_scheme \<Rightarrow> world \<Rightarrow> world" where
  "print_message rt symbol self w =
     (let fill_length = max (max (length (''Server: '' @ fstr rt (server self)))
                                 (length (''Database: '' @ fstr rt (db self))))
                            (length (''User: '' @ fstr rt (user self)));
          fill = repeat fill_length symbol;
          message = ''Connected to'' @ nl @ fill @ nl
                    @ ''Server: '' @ fstr rt (server self) @ nl
                    @ ''Database: '' @ fstr rt (db self) @ nl
                    @ ''User: '' @ fstr rt (user self) @ nl @ fill
      in print message w)"

text \<open>\<^verbatim>\<open>MSSQLSession.make_engine\<close> and \<^verbatim>\<open>PostgreSQLSession.make_engine\<close>.\<close>

definition MSSQL_make_engine ::
  "runtime \<Rightarrow> 'a credentials_scheme \<Rightarrow> world \<Rightarrow> (error + obj) \<times> world" where
  "MSSQL_make_engine rt self w =
     perform rt
       (CreateEngine
          (''mssql+pyodbc://'' @ fstr rt (user self) @ '':'' @ fstr rt (password self)
           @ ''@'' @ fstr rt (server self) @ '':'' @ fstr rt (port self) @ ''/''
           @ fstr rt (db self) @ ''?driver=ODBC+Driver+13+for+SQL+Server'')
          [(''fast_executemany'', PBool True)]) w"

definition PostgreSQL_make_engine ::
  "runtime \<Rightarrow> 'a credentials_scheme \<Rightarrow> world \<Rightarrow> (error + obj) \<times> world" where
  "PostgreSQL_make_engine rt self w =
     perform rt
       (CreateEngine
          (''postgres://'' @ fstr rt (user self) @ '':'' @ fstr rt (password self)
           @ ''@'' @ fstr rt (server self) @ '':'' @ fstr rt (port self) @ ''/''
           @ fstr rt (db self))
          []) w"

text \<open>A method call on \<open>self\<close> goes to the class of \<open>self\<close>.\<close>

definition make_engine ::
  "runtime \<Rightarrow> 'a credentials_scheme \<Rightarrow> world \<Rightarrow> (error + obj) \<times> world" where
  "make_engine rt self w =
     (case cls self of
        MSSQLSession \<Rightarrow> MSSQL_make_engine rt self w
      | PostgreSQLSession \<Rightarrow> PostgreSQL_make_engine rt self w)"

text \<open>
  \<^verbatim>\<open>SQLSession.__init__\<close>. The two checks come first; a library call that raises ends the
  constructor with that error and no session.
\<close>

definition init ::
  "runtime \<Rightarrow> dialect \<Rightarrow> pyval \<Rightarrow> pyval \<Rightarrow> pyval \<Rightarrow> pyval \<Rightarrow> pyval \<Rightarrow> pyval \<Rightarrow> world
     \<Rightarrow> (error + session) \<times> world" where
  "init rt d server' port' db' user' password' silent w =
     (if \<not> (is_string server' \<and> is_string db') then
        (Inl (TypeError ''server and db arguments should be strings''), w)
      else if \<not> (is_string user' \<and> is_string password') then
        (Inl (TypeError ''user and password arguments should be strings''), w)
      else
        (let self = \<lparr>cls = d, server = server', port = port', db = db', user = user',
                      password = password'\<rparr>
         in case make_engine rt self w of
              (Inl e, w1) \<Rightarrow> (Inl e, w1)
            | (Inr engine', w1) \<Rightarrow>
                (case perform rt (Connect engine') w1 of
                   (Inl e, w2) \<Rightarrow> (Inl e, w2)
                 | (Inr con', w2) \<Rightarrow>
                     (Inr \<lparr>cls = d, server = server', port = port', db = db', user = user',
                           password = password', engine = engine', con = con',
                           is_connected = True, is_silent = silent\<rparr>,
                      if \<not> truthy silent then print_message rt ''-'' self w2 else w2))))"

text \<open>\<^verbatim>\<open>select_statement\<close> of the two classes.\<close>

definition MSSQL_select_statement ::
  "runtime \<Rightarrow> session \<Rightarrow> pyval \<Rightarrow> world \<Rightarrow> (error + obj) \<times> session \<times> world" where
  "MSSQL_select_statement rt self query w =
     (case query of
        PStr q \<Rightarrow>
          (case perform rt (ReadSql (''set nocount on; '' @ q) (con self)) w of
             (r, w1) \<Rightarrow> (r, self, w1))
      | _ \<Rightarrow> (Inl (TypeError ''query argument should be a string''), self, w))"

definition PostgreSQL_select_statement ::
  "runtime \<Rightarrow> session \<Rightarrow> pyval \<Rightarrow> world \<Rightarrow> (error + obj) \<times> session \<times> world" where
  "PostgreSQL_select_statement rt self query w =
     (case query of
        PStr q \<Rightarrow>
          (case perform rt (ReadSql q (con self)) w of
             (r, w1) \<Rightarrow> (r, self, w1))
      | _ \<Rightarrow> (Inl (TypeError ''query argument should be a string''), self, w))"

definition select_statement ::
  "runtime \<Rightarrow> session \<Rightarrow> pyval \<Rightarrow> world \<Rightarrow> (error + obj) \<times> session \<times> world" where
  "select_statement rt self query w =
     (case cls self of
        MSSQLSession \<Rightarrow> MSSQL_select_statement rt self query w
      | PostgreSQLSession \<Rightarrow> PostgreSQL_select_statement rt self query w)"

text \<open>
  \<^verbatim>\<open>exec_sp\<close> of the two classes. In \<^verbatim>\<open>MSSQLSession\<close> the parameter \<^verbatim>\<open>params\<close> defaults to
  \<^verbatim>\<open>None\<close>, which stands for the empty list.
\<close>

definition MSSQL_exec_sp ::
  "runtime \<Rightarrow> session \<Rightarrow> pyval \<Rightarrow> pyval \<Rightarrow> world \<Rightarrow> (error + unit) \<times> session \<times> world" where
  "MSSQL_exec_sp rt self sp_name params w =
     (case sp_name of
        PStr name \<Rightarrow>
          (case (case params of PNone \<Rightarrow> Some [] | PList ps \<Rightarrow> Some ps | _ \<Rightarrow> None) of
             None \<Rightarrow> (Inl (TypeError ''params argument should be a list''), self, w)
           | Some ps \<Rightarrow>
               (let params_template = join '', '' (replicate (length ps) ''?'') in
                case perform rt (RawConnection (engine self)) w of
                  (Inl e, w1) \<Rightarrow> (Inl e, self, w1)
                | (Inr raw, w1) \<Rightarrow>
                    (case perform rt (Cursor raw) w1 of
                       (Inl e, w2) \<Rightarrow> (Inl e, self, w2)
                     | (Inr cursor, w2) \<Rightarrow>
                         (case perform rt
                                 (Execute cursor
                                    (''set nocount on; exec '' @ name @ '' '' @ params_template)
                                    ps) w2 of
                            (Inl e, w3) \<Rightarrow> (Inl e, self, w3)
                          | (Inr r, w3) \<Rightarrow>
                              (case perform rt (Commit cursor) w3 of
                                 (Inl e, w4) \<Rightarrow> (Inl e, self, w4)
                               | (Inr r, w4) \<Rightarrow> (Inr (), self, w4))))))
      | _ \<Rightarrow> (Inl (TypeError ''query argument should be a string''), self, w))"

definition PostgreSQL_exec_sp ::
  "runtime \<Rightarrow> session \<Rightarrow> pyval \<Rightarrow> pyval \<Rightarrow> world \<Rightarrow> (error + unit) \<times> session \<times> world" where
  "PostgreSQL_exec_sp rt self sp_name params w = (Inl NotImplementedError, self, w)"

definition exec_sp ::
  "runtime \<Rightarrow> session \<Rightarrow> pyval \<Rightarrow> pyval \<Rightarrow> world \<Rightarrow> (error + unit) \<times> session \<times> world" where
  "exec_sp rt self sp_name params w =
     (case cls self of
        MSSQLSession \<Rightarrow> MSSQL_exec_sp rt self sp_name params w
      | PostgreSQLSession \<Rightarrow> PostgreSQL_exec_sp rt self sp_name params w)"

text \<open>
  \<^verbatim>\<open>SQLSession.df_to_db\<close>. The unpacking of the split name into two names raises
  \<open>ValueError\<close> unless there are exactly two parts; the module turns that into an
  \<open>Exception\<close>. The keywords \<^verbatim>\<open>to_sql\<close> is given by name may not come again in \<^verbatim>\<open>kwargs\<close>.
\<close>

definition unpack2 :: "string list \<Rightarrow> error + string \<times> string" where
  "unpack2 parts = (case parts of [a, b] \<Rightarrow> Inr (a, b) | _ \<Rightarrow> Inl ValueError)"

definition table_fullname_message :: string where
  \<open>table_fullname_message = ''table_fullname argument should be like "schema_name.table_name"''\<close>

definition to_sql_keywords :: "string list" where
  "to_sql_keywords = [''name'', ''index'', ''schema'', ''con'', ''if_exists'']"

definition df_to_db ::
  "runtime \<Rightarrow> session \<Rightarrow> obj \<Rightarrow> pyval \<Rightarrow> pyval \<Rightarrow> pyval \<Rightarrow> (string \<times> pyval) list \<Rightarrow> world
     \<Rightarrow> (error + unit) \<times> session \<times> world" where
  "df_to_db rt self df table_fullname index if_exists kwargs w =
     (case table_fullname of
        PStr name \<Rightarrow>
          (case unpack2 (split_on CHR ''.'' name) of
             Inl e \<Rightarrow> (Inl (Exception table_fullname_message e), self, w)
           | Inr (schema_name, table_name) \<Rightarrow>
               (case filter (\<lambda>k. k \<in> set to_sql_keywords) (map fst kwargs) of
                  k # ks \<Rightarrow> (Inl (DuplicateKeyword k), self, w)
                | [] \<Rightarrow>
                    (case perform rt
                            (ToSql df table_name index schema_name (con self) if_exists kwargs)
                            w of
                       (Inl e, w1) \<Rightarrow> (Inl e, self, w1)
                     | (Inr r, w1) \<Rightarrow> (Inr (), self, w1))))
      | _ \<Rightarrow> (Inl (TypeError ''table_fullname argument should be a string''), self, w))"

text \<open>\<^verbatim>\<open>SQLSession.close\<close>, \<^verbatim>\<open>__enter__\<close> and \<^verbatim>\<open>__exit__\<close>.\<close>

definition close :: "runtime \<Rightarrow> session \<Rightarrow> world \<Rightarrow> (error + unit) \<times> session \<times> world" where
  "close rt self w =
     (case (if is_connected self then
              (case perform rt (ConClose (con self)) w of
                 (Inl e, w1) \<Rightarrow> (Inl e, self, w1)
               | (Inr r, w1) \<Rightarrow> (Inr ''Connection closed'', self\<lparr>is_connected := False\<rparr>, w1))
            else (Inr ''Connection is already closed'', self, w)) of
        (Inl e, self1, w1) \<Rightarrow> (Inl e, self1, w1)
      | (Inr message', self1, w1) \<Rightarrow>
          (Inr (), self1,
           if \<not> truthy (is_silent self1) then
             (let fill_symbol = ''-'';
                  fill_length = length message';
                  message = repeat fill_length fill_symbol @ nl @ message' @ nl
                            @ repeat fill_length fill_symbol
              in print message w1)
           else w1))"

definition enter :: "session \<Rightarrow> session" where
  "enter self = self"

definition exit ::
  "runtime \<Rightarrow> session \<Rightarrow> error option \<Rightarrow> world \<Rightarrow> (error + pyval) \<times> session \<times> world" where
  "exit rt self exc w =
     (case close rt self w of
        (Inl e, self', w') \<Rightarrow> (Inl e, self', w')
      | (Inr r, self', w') \<Rightarrow> (Inr PNone, self', w'))"

text \<open>
  The statement \<^verbatim>\<open>with session as s: body\<close>. The body gets what \<^verbatim>\<open>__enter__\<close> returned and
  may change the session and the world; it ends normally with a value or with an error.
  \<^verbatim>\<open>__exit__\<close> runs in both cases; an error of the body is raised again afterwards unless
  \<^verbatim>\<open>__exit__\<close> returned a true value, and an error of \<^verbatim>\<open>__exit__\<close> itself replaces it.
\<close>

definition with_session ::
  "runtime \<Rightarrow> session \<Rightarrow> (session \<Rightarrow> world \<Rightarrow> (error + 'a) \<times> session \<times> world) \<Rightarrow> world
     \<Rightarrow> (error + 'a option) \<times> session \<times> world" where
  "with_session rt self body w =
     (case body (enter self) w of
        (Inr v, self1, w1) \<Rightarrow>
          (case exit rt self1 None w1 of
             (Inl e, self2, w2) \<Rightarrow> (Inl e, self2, w2)
           | (Inr r, self2, w2) \<Rightarrow> (Inr (Some v), self2, w2))
      | (Inl e, self1, w1) \<Rightarrow>
          (case exit rt self1 (Some e) w1 of
             (Inl e', self2, w2) \<Rightarrow> (Inl e', self2, w2)
           | (Inr r, self2, w2) \<Rightarrow>
               (if truthy r then (Inr None, self2, w2) else (Inl e, self2, w2))))"

text \<open>The operations a caller has on a session, and a caller that runs a list of them.\<close>

datatype operation =
    Select_statement pyval
  | Exec_sp pyval pyval
  | Df_to_db obj pyval pyval pyval "(string \<times> pyval) list"
  | Print_message string
  | Make_engine
  | Close
  | Enter
  | Exit "error option"

definition run_operation :: "runtime \<Rightarrow> operation \<Rightarrow> session \<times> world \<Rightarrow> session \<times> world" where
  "run_operation rt op sw =
     (case sw of (self, w) \<Rightarrow>
        (case op of
           Select_statement query \<Rightarrow> snd (select_statement rt self query w)
         | Exec_sp sp_name params \<Rightarrow> snd (exec_sp rt self sp_name params w)
         | Df_to_db df table_fullname index if_exists kwargs \<Rightarrow>
             snd (df_to_db rt self df table_fullname index if_exists kwargs w)
         | Print_message symbol \<Rightarrow> (self, print_message rt symbol self w)
         | Make_engine \<Rightarrow> (self, snd (make_engine rt self w))
         | Close \<Rightarrow> snd (close rt self w)
         | Enter \<Rightarrow> (enter self, w)
         | Exit exc \<Rightarrow> snd (exit rt self exc w)))"

definition run_operations ::
  "runtime \<Rightarrow> operation list \<Rightarrow> session \<times> world \<Rightarrow> session \<times> world" where
  "run_operations rt ops sw = fold (run_operation rt) ops sw"

section \<open>A runtime for the examples\<close>

text \<open>
  The examples below run the module against libraries that answer every call with a fresh
  handle (the number of calls made before it) and never raise. \<open>sample_format\<close> is Python's
  \<^verbatim>\<open>str\<close> on \<^verbatim>\<open>None\<close>, booleans and integers; lists are not formatted in any example.
\<close>

function decimal :: "nat \<Rightarrow> string" where
  "decimal n =
     (if n < 10 then [''0123456789'' ! n]
      else decimal (n div 10) @ [''0123456789'' ! (n mod 10)])"
  by pat_completeness auto
termination
  by (relation "measure id") auto

definition sample_format :: "pyval \<Rightarrow> string" where
  "sample_format v =
     (case v of
        PNone \<Rightarrow> ''None''
      | PBool b \<Rightarrow> (if b then ''True'' else ''False'')
      | PInt i \<Rightarrow> (if i < 0 then ''-'' @ decimal (nat (- i)) else decimal (nat i))
      | PStr s \<Rightarrow> s
      | PList xs \<Rightarrow> ''[...]'')"

definition sample_runtime :: runtime where
  "sample_runtime = \<lparr>format = sample_format, respond = (\<lambda>history c. Returns (length history))\<rparr>"

text \<open>
  Libraries whose connection cannot be closed: \<^verbatim>\<open>con.close()\<close> raises, every other call
  answers as in \<open>sample_runtime\<close>.
\<close>

definition failing_close_runtime :: runtime where
  "failing_close_runtime =
     \<lparr>format = sample_format,
      respond = (\<lambda>history c. case c of ConClose k \<Rightarrow> Raises 3 | _ \<Rightarrow> Returns (length history))\<rparr>"

definition sample_world :: world where
  "sample_world = \<lparr>calls = [], stdout = []\<rparr>"

text \<open>The session a constructor call with these arguments returns in \<open>sample_world\<close>.\<close>

definition sample_session :: "dialect \<Rightarrow> session" where
  "sample_session d =
     \<lparr>cls = d, server = PStr ''host'', port = PInt 1433, db = PStr ''sales'', user = PStr ''me'',
      password = PStr ''pw'', engine = 0, con = 1, is_connected = True, is_silent = PBool False\<rparr>"

section \<open>Basic facts\<close>

lemma perform_calls: "calls (snd (perform rt c w)) = calls w @ [c]"
  by (simp add: perform_def split: outcome.split)

lemma split_on_not_Nil: "split_on sep s \<noteq> []"
  by (induction s) (auto split: list.splits)

lemma length_split_on: "length (split_on sep s) = Suc (count_list s sep)"
proof (induction s)
  case Nil
  show ?case by simp
next
  case (Cons c cs)
  obtain p ps where "split_on sep cs = p # ps"
    using split_on_not_Nil [of sep cs] by (cases "split_on sep cs") auto
  with Cons show ?case by auto
qed

text \<open>A string splits into exactly two parts when it has exactly one separator.\<close>

lemma split_on_two_parts: "length (split_on sep s) = 2 \<longleftrightarrow> count_list s sep = 1"
  by (simp add: length_split_on)

lemma unpack2_Inl: "length parts \<noteq> 2 \<Longrightarrow> unpack2 parts = Inl ValueError"
  by (auto simp: unpack2_def split: list.splits)

lemma select_statement_self: "fst (snd (select_statement rt self query w)) = self"
  by (simp add: select_statement_def MSSQL_select_statement_def PostgreSQL_select_statement_def
      split: dialect.split pyval.split prod.split)

lemma exec_sp_self: "fst (snd (exec_sp rt self sp_name params w)) = self"
  by (simp add: exec_sp_def MSSQL_exec_sp_def PostgreSQL_exec_sp_def Let_def
      split: dialect.split pyval.split prod.split sum.split option.split)

lemma df_to_db_self: "fst (snd (df_to_db rt self df table_fullname index if_exists kwargs w)) = self"
  by (simp add: df_to_db_def split: pyval.split prod.split sum.split list.split)

lemma close_not_connected:
  "\<not> is_connected self \<Longrightarrow>
   close rt self w =
     (Inr (), self,
      if truthy (is_silent self) then w
      else print (repeat (length ''Connection is already closed'') ''-'' @ nl @ ''Connection is already closed'' @ nl @ repeat (length ''Connection is already closed'') ''-'') w)"
  by (simp add: close_def Let_def)

lemma close_connected_returns:
  "is_connected self \<Longrightarrow> respond rt (calls w) (ConClose (con self)) = Returns v \<Longrightarrow>
   close rt self w =
     (Inr (), self\<lparr>is_connected := False\<rparr>,
      if truthy (is_silent self) then w\<lparr>calls := calls w @ [ConClose (con self)]\<rparr>
      else print (repeat (length ''Connection closed'') ''-'' @ nl @ ''Connection closed'' @ nl @ repeat (length ''Connection closed'') ''-'')
             (w\<lparr>calls := calls w @ [ConClose (con self)]\<rparr>))"
  by (simp add: close_def perform_def Let_def)

lemma close_connected_raises:
  "is_connected self \<Longrightarrow> respond rt (calls w) (ConClose (con self)) = Raises n \<Longrightarrow>
   close rt self w = (Inl (DriverError n), self, w\<lparr>calls := calls w @ [ConClose (con self)]\<rparr>)"
  by (simp add: close_def perform_def Let_def)

lemma close_Inr: "close rt self w = (Inr u, self', w') \<Longrightarrow> \<not> is_connected self'"
  by (auto simp: close_def perform_def split: if_splits outcome.splits)

lemma close_stays_closed: "\<not> is_connected self \<Longrightarrow> \<not> is_connected (fst (snd (close rt self w)))"
  by (simp add: close_not_connected)

lemma exit_close: "snd (exit rt self exc w) = snd (close rt self w)"
  by (simp add: exit_def split: prod.split sum.split)

lemma run_operation_stays_closed:
  "\<not> is_connected (fst sw) \<Longrightarrow> \<not> is_connected (fst (run_operation rt op sw))"
proof (cases sw)
  case (Pair self w)
  assume "\<not> is_connected (fst sw)"
  with Pair have closed: "\<not> is_connected self" by simp
  show ?thesis
  proof (cases op)
    case (Select_statement query)
    with Pair closed show ?thesis
      by (simp add: run_operation_def select_statement_self)
  next
    case (Exec_sp sp_name params)
    with Pair closed show ?thesis
      by (simp add: run_operation_def exec_sp_self)
  next
    case (Df_to_db df table_fullname index if_exists kwargs)
    with Pair closed show ?thesis
      by (simp add: run_operation_def df_to_db_self)
  next
    case Close
    with Pair closed show ?thesis
      by (simp add: run_operation_def close_stays_closed)
  next
    case (Exit exc)
    with Pair closed show ?thesis
      by (simp add: run_operation_def exit_close close_stays_closed)
  qed (use Pair closed in \<open>simp_all add: run_operation_def enter_def\<close>)
qed

lemma run_operations_stays_closed:
  "\<not> is_connected (fst sw) \<Longrightarrow> \<not> is_connected (fst (run_operations rt ops sw))"
  unfolding run_operations_def
  by (induction ops arbitrary: sw) (simp_all add: run_operation_stays_closed)

lemma init_Inr:
  "init rt d server' port' db' user' password' silent w = (Inr self, w') \<Longrightarrow>
   is_connected self \<and> port self = port' \<and> cls self = d \<and> is_silent self = silent"
  by (auto simp: init_def Let_def split: if_splits prod.splits sum.splits)

lemma df_to_db_two_parts:
  assumes "split_on CHR ''.'' name = [schema_name, table_name]"
    and "\<forall>k \<in> set (map fst kwargs). k \<notin> set to_sql_keywords"
  shows "df_to_db rt self df (PStr name) index if_exists kwargs w =
           (case respond rt (calls w)
                   (ToSql df table_name index schema_name (con self) if_exists kwargs) of
              Returns v \<Rightarrow> Inr () | Raises n \<Rightarrow> Inl (DriverError n),
            self,
            w\<lparr>calls := calls w
                 @ [ToSql df table_name index schema_name (con self) if_exists kwargs]\<rparr>)"
proof -
  from assms(2) have "filter (\<lambda>k. k \<in> set to_sql_keywords) (map fst kwargs) = []"
    by (simp add: filter_empty_conv)
  with assms(1) show ?thesis
    by (simp add: df_to_db_def unpack2_def perform_def split: outcome.split)
qed

lemma init_sample:
  "fst (init sample_runtime d (PStr ''host'') (PInt 1433) (PStr ''sales'') (PStr ''me'')
          (PStr ''pw'') (PBool False) sample_world) = Inr (sample_session d)"
  by (cases d)
     (simp_all add: init_def make_engine_def MSSQL_make_engine_def PostgreSQL_make_engine_def
        perform_def sample_runtime_def sample_world_def sample_session_def Let_def)

lemma init_sample_calls:
  "calls (snd (init sample_runtime MSSQLSession (PStr ''host'') (PInt 1433) (PStr ''sales'')
          (PStr ''me'') (PStr ''pw'') (PBool False) sample_world)) =
     [CreateEngine ''mssql+pyodbc://me:pw@host:1433/sales?driver=ODBC+Driver+13+for+SQL+Server''
        [(''fast_executemany'', PBool True)], Connect 0]"
  by (simp add: init_def make_engine_def MSSQL_make_engine_def print_message_def print_def
        perform_def sample_runtime_def sample_world_def sample_format_def Let_def)

lemma close_sample:
  "close sample_runtime (sample_session d) w =
     (Inr (), (sample_session d)\<lparr>is_connected := False\<rparr>,
      print (repeat (length ''Connection closed'') ''-'' @ nl @ ''Connection closed'' @ nl
             @ repeat (length ''Connection closed'') ''-'')
        (w\<lparr>calls := calls w @ [ConClose 1]\<rparr>))"
  using close_connected_returns [of "sample_session d" sample_runtime w "length (calls w)"]
  by (simp add: sample_session_def sample_runtime_def)

lemma close_calls_closed: "\<not> is_connected self \<Longrightarrow> calls (snd (snd (close rt self w))) = calls w"
  by (simp add: close_not_connected print_def)

lemma box_messages_differ:
  "repeat (length ''Connection closed'') ''-'' @ nl @ ''Connection closed'' @ nl
     @ repeat (length ''Connection closed'') ''-''
   \<noteq> repeat (length ''Connection is already closed'') ''-'' @ nl
     @ ''Connection is already closed'' @ nl
     @ repeat (length ''Connection is already closed'') ''-''"
  by (simp add: repeat_def nl_def)

lemma close_returns:
  assumes "is_connected self \<longrightarrow> (\<exists>v. respond rt (calls w) (ConClose (con self)) = Returns v)"
  shows "fst (close rt self w) = Inr ()"
proof (cases "is_connected self")
  case True
  with assms obtain v where "respond rt (calls w) (ConClose (con self)) = Returns v" by blast
  with True show ?thesis by (simp add: close_connected_returns)
next
  case False
  then show ?thesis by (simp add: close_not_connected)
qed

lemma with_session_close:
  assumes "body self w = (r, self1, w1)"
  shows "snd (with_session rt self body w) = snd (close rt self1 w1)"
  using assms
  by (cases r; cases "close rt self1 w1"; cases "fst (close rt self1 w1)")
     (simp_all add: with_session_def enter_def exit_def)

lemma with_session_result:
  assumes "body self w = (r, self1, w1)" and "fst (close rt self1 w1) = Inr ()"
  shows "fst (with_session rt self body w) = (case r of Inl e \<Rightarrow> Inl e | Inr v \<Rightarrow> Inr (Some v))"
  using assms
  by (cases r; cases "close rt self1 w1")
     (simp_all add: with_session_def enter_def exit_def)

lemma init_valid:
  assumes "is_string server'" "is_string db'" "is_string user'" "is_string password'"
  shows "init rt d server' port' db' user' password' silent w =
     (case make_engine rt \<lparr>cls = d, server = server', port = port', db = db', user = user',
                            password = password'\<rparr> w of
        (Inl e, w1) \<Rightarrow> (Inl e, w1)
      | (Inr engine', w1) \<Rightarrow>
          (case perform rt (Connect engine') w1 of
             (Inl e, w2) \<Rightarrow> (Inl e, w2)
           | (Inr con', w2) \<Rightarrow>
               (Inr \<lparr>cls = d, server = server', port = port', db = db', user = user',
                     password = password', engine = engine', con = con',
                     is_connected = True, is_silent = silent\<rparr>,
                if \<not> truthy silent
                then print_message rt ''-'' \<lparr>cls = d, server = server', port = port', db = db',
                       user = user', password = password'\<rparr> w2
                else w2)))"
  using assms by (simp add: init_def Let_def)

lemma make_engine_call:
  "make_engine rt self w =
     perform rt
       (CreateEngine
          ((case cls self of MSSQLSession \<Rightarrow> ''mssql+pyodbc://'' | PostgreSQLSession \<Rightarrow> ''postgres://'')
           @ fstr rt (user self) @ '':'' @ fstr rt (password self) @ ''@'' @ fstr rt (server self)
           @ '':'' @ fstr rt (port self) @ ''/'' @ fstr rt (db self)
           @ (case cls self of
                MSSQLSession \<Rightarrow> ''?driver=ODBC+Driver+13+for+SQL+Server''
              | PostgreSQLSession \<Rightarrow> []))
          (case cls self of
             MSSQLSession \<Rightarrow> [(''fast_executemany'', PBool True)]
           | PostgreSQLSession \<Rightarrow> [])) w"
  by (simp add: make_engine_def MSSQL_make_engine_def PostgreSQL_make_engine_def
      split: dialect.split)

lemma perform_cases:
  obtains v where "perform rt c w = (Inr v, w\<lparr>calls := calls w @ [c]\<rparr>)"
  | n where "perform rt c w = (Inl (DriverError n), w\<lparr>calls := calls w @ [c]\<rparr>)"
  by (cases "respond rt (calls w) c") (auto simp: perform_def)

lemma print_message_calls: "calls (print_message rt symbol self w) = calls w"
  by (simp add: print_message_def print_def Let_def)

lemma MSSQL_exec_sp_sample:
  "exec_sp sample_runtime (sample_session MSSQLSession) (PStr ''sp1'') (PList [PInt 1, PInt 2])
       sample_world =
       (Inr (), sample_session MSSQLSession,
        \<lparr>calls = [RawConnection 0, Cursor 0,
                  Execute 1 ''set nocount on; exec sp1 ?, ?'' [PInt 1, PInt 2], Commit 1],
         stdout = []\<rparr>)"
  by (simp add: exec_sp_def MSSQL_exec_sp_def perform_def sample_runtime_def sample_world_def
        sample_session_def numeral_2_eq_2)

section \<open>Writing a data frame\<close>

text \<open>
  C1, as the code has it. A \<^verbatim>\<open>table_fullname\<close> that does not split on \<^verbatim>\<open>'.'\<close> into exactly
  two parts makes \<open>df_to_db\<close> fail before anything is written: the session and the world,
  with its list of library calls, are as before. The error is not a \<open>ValueError\<close>: for a
  string it is the \<open>Exception\<close> the module raises from the \<open>ValueError\<close> of the unpacking,
  and for a value that is not a string it is a \<open>TypeError\<close>.
\<close>

theorem df_to_db_malformed:
  assumes "\<forall>name. table_fullname = PStr name \<longrightarrow> length (split_on CHR ''.'' name) \<noteq> 2"
  shows "df_to_db rt self df table_fullname index if_exists kwargs w =
           (Inl (if is_string table_fullname
                 then Exception table_fullname_message ValueError
                 else TypeError ''table_fullname argument should be a string''), self, w)"
proof (cases table_fullname)
  case (PStr name)
  with assms have "unpack2 (split_on CHR ''.'' name) = Inl ValueError"
    by (simp add: unpack2_Inl)
  with PStr show ?thesis by (simp add: df_to_db_def)
qed (simp_all add: df_to_db_def)

theorem df_to_db_malformed_witness:
  "length (split_on CHR ''.'' ''onlytablename'') \<noteq> 2 \<and>
   df_to_db sample_runtime (sample_session MSSQLSession) 7 (PStr ''onlytablename'')
       (PBool False) (PStr ''fail'') [] sample_world =
     (Inl (Exception table_fullname_message ValueError), sample_session MSSQLSession, sample_world)"
  using df_to_db_malformed [of "PStr ''onlytablename''" sample_runtime
      "sample_session MSSQLSession" 7 "PBool False" "PStr ''fail''" "[]" sample_world]
  by simp

text \<open>
  C1 as written asks for a value error. For \<^verbatim>\<open>"onlytablename"\<close> the error raised is an
  \<open>Exception\<close>, which is not a \<open>ValueError\<close>.
\<close>

theorem df_to_db_error_class:
  "fst (df_to_db sample_runtime (sample_session MSSQLSession) 7 (PStr ''onlytablename'')
          (PBool False) (PStr ''fail'') [] sample_world) =
     Inl (Exception table_fullname_message ValueError) \<and>
   fst (df_to_db sample_runtime (sample_session MSSQLSession) 7 (PStr ''onlytablename'')
          (PBool False) (PStr ''fail'') [] sample_world) \<noteq> Inl ValueError"
  by (simp add: df_to_db_def unpack2_def)

section \<open>Construction\<close>

text \<open>
  C2. When one of \<^verbatim>\<open>server\<close>, \<^verbatim>\<open>db\<close>, \<^verbatim>\<open>user\<close>, \<^verbatim>\<open>password\<close> is not a string, the constructor
  of either class fails with a \<open>TypeError\<close> and the world is as before: no engine was
  built, no connection opened, nothing printed.
\<close>

theorem init_type_error:
  assumes "\<not> (is_string server' \<and> is_string db' \<and> is_string user' \<and> is_string password')"
  shows "init rt d server' port' db' user' password' silent w =
           (Inl (TypeError (if is_string server' \<and> is_string db'
                            then ''user and password arguments should be strings''
                            else ''server and db arguments should be strings'')), w)"
  using assms by (auto simp: init_def)

theorem init_type_error_witness:
  "\<not> (is_string (PStr ''host'') \<and> is_string (PStr ''sales'') \<and> is_string (PStr ''me'')
       \<and> is_string (PInt 1234)) \<and>
   init sample_runtime PostgreSQLSession (PStr ''host'') (PStr ''5432'') (PStr ''sales'')
        (PStr ''me'') (PInt 1234) (PBool False) sample_world =
     (Inl (TypeError ''user and password arguments should be strings''), sample_world)"
  using init_type_error [of "PStr ''host''" "PStr ''sales''" "PStr ''me''" "PInt 1234"
      sample_runtime PostgreSQLSession "PStr ''5432''" "PBool False" sample_world]
  by simp

text \<open>
  C10. The constructor checks \<^verbatim>\<open>server\<close>, \<^verbatim>\<open>db\<close>, \<^verbatim>\<open>user\<close> and \<^verbatim>\<open>password\<close> only. When these
  four are strings, whatever \<^verbatim>\<open>port\<close> is, the constructor raises no type error of its own
  (an error can only be one a library call raised), a session it returns has the port as it
  was given, and the first thing it does is the \<^verbatim>\<open>create_engine\<close> call of the class, whose
  URL has the text the f-string puts for that port.
\<close>

theorem init_port_unchecked:
  assumes "is_string server'" "is_string db'" "is_string user'" "is_string password'"
  shows "(\<forall>m. fst (init rt d server' port' db' user' password' silent w) \<noteq> Inl (TypeError m))
    \<and> (\<forall>self w'. init rt d server' port' db' user' password' silent w = (Inr self, w')
          \<longrightarrow> port self = port')
    \<and> (\<exists>later. calls (snd (init rt d server' port' db' user' password' silent w)) =
          calls w
          @ [CreateEngine
               ((case d of MSSQLSession \<Rightarrow> ''mssql+pyodbc://''
                         | PostgreSQLSession \<Rightarrow> ''postgres://'')
                @ fstr rt user' @ '':'' @ fstr rt password' @ ''@'' @ fstr rt server'
                @ '':'' @ fstr rt port' @ ''/'' @ fstr rt db'
                @ (case d of MSSQLSession \<Rightarrow> ''?driver=ODBC+Driver+13+for+SQL+Server''
                           | PostgreSQLSession \<Rightarrow> []))
               (case d of MSSQLSession \<Rightarrow> [(''fast_executemany'', PBool True)]
                        | PostgreSQLSession \<Rightarrow> [])]
          @ later)"
proof -
  let ?self = "\<lparr>cls = d, server = server', port = port', db = db', user = user',
                 password = password'\<rparr>"
  let ?c = "CreateEngine
               ((case d of MSSQLSession \<Rightarrow> ''mssql+pyodbc://''
                         | PostgreSQLSession \<Rightarrow> ''postgres://'')
                @ fstr rt user' @ '':'' @ fstr rt password' @ ''@'' @ fstr rt server'
                @ '':'' @ fstr rt port' @ ''/'' @ fstr rt db'
                @ (case d of MSSQLSession \<Rightarrow> ''?driver=ODBC+Driver+13+for+SQL+Server''
                           | PostgreSQLSession \<Rightarrow> []))
               (case d of MSSQLSession \<Rightarrow> [(''fast_executemany'', PBool True)]
                        | PostgreSQLSession \<Rightarrow> [])"
  let ?w1 = "w\<lparr>calls := calls w @ [?c]\<rparr>"
  note i = init_valid [OF assms, of rt d port' silent w]
  have m: "make_engine rt ?self w = perform rt ?c w"
    by (simp add: make_engine_call)
  show ?thesis
  proof (cases rule: perform_cases [of rt ?c w])
    case (2 n)
    with i m show ?thesis by simp
  next
    case (1 engine')
    show ?thesis
    proof (cases rule: perform_cases [of rt "Connect engine'" ?w1])
      case (2 n)
      with i m 1 show ?thesis by simp
    next
      case c: (1 con')
      with i m 1 show ?thesis by (simp add: print_message_calls)
    qed
  qed
qed

theorem init_port_unchecked_witness:
  "is_string (PStr ''host'') \<and> is_string (PStr ''sales'') \<and> is_string (PStr ''me'')
   \<and> is_string (PStr ''pw'') \<and> \<not> is_string (PInt 1433)
   \<and> fst (init sample_runtime MSSQLSession (PStr ''host'') (PInt 1433) (PStr ''sales'')
            (PStr ''me'') (PStr ''pw'') (PBool False) sample_world) =
       Inr (sample_session MSSQLSession)
   \<and> port (sample_session MSSQLSession) = PInt 1433
   \<and> (\<exists>later. calls (snd (init sample_runtime MSSQLSession (PStr ''host'') (PInt 1433)
            (PStr ''sales'') (PStr ''me'') (PStr ''pw'') (PBool False) sample_world)) =
         [CreateEngine
            ''mssql+pyodbc://me:pw@host:1433/sales?driver=ODBC+Driver+13+for+SQL+Server''
            [(''fast_executemany'', PBool True)]] @ later)"
proof -
  note t = init_port_unchecked [of "PStr ''host''" "PStr ''sales''" "PStr ''me''" "PStr ''pw''"
      sample_runtime MSSQLSession "PInt 1433" "PBool False" sample_world]
  have f: "fstr sample_runtime (PInt 1433) = ''1433''"
    by (simp add: sample_runtime_def sample_format_def)
  have "\<exists>later. calls (snd (init sample_runtime MSSQLSession (PStr ''host'') (PInt 1433)
            (PStr ''sales'') (PStr ''me'') (PStr ''pw'') (PBool False) sample_world)) =
         [CreateEngine
            ''mssql+pyodbc://me:pw@host:1433/sales?driver=ODBC+Driver+13+for+SQL+Server''
            [(''fast_executemany'', PBool True)]] @ later"
    using t f by (simp add: sample_world_def)
  then show ?thesis
    by (simp add: init_sample sample_session_def)
qed

section \<open>The life of a connection\<close>

text \<open>
  C3, as the code has it. A session the constructor returns has \<open>is_connected\<close> true. On a
  connected session \<open>close\<close> returns whenever the connection's own \<^verbatim>\<open>close\<close> does, and
  when \<open>close\<close> has returned \<open>is_connected\<close> is false. From then on it stays false: no
  list of operations of the class, run on a session that is not connected, gives a
  connected one.
\<close>

theorem is_connected_lifecycle:
  "(init rt d server' port' db' user' password' silent w0 = (Inr self1, w1)
      \<longrightarrow> is_connected self1)
   \<and> (is_connected self \<and> respond rt (calls w) (ConClose (con self)) = Returns v
      \<longrightarrow> fst (close rt self w) = Inr ())
   \<and> (is_connected self \<and> close rt self w = (Inr (), self2, w2)
      \<longrightarrow> \<not> is_connected self2)
   \<and> (\<not> is_connected self3
      \<longrightarrow> \<not> is_connected (fst (run_operations rt ops (self3, w3))))"
proof (intro conjI impI)
  assume "init rt d server' port' db' user' password' silent w0 = (Inr self1, w1)"
  then show "is_connected self1" by (simp add: init_Inr)
next
  assume "is_connected self \<and> respond rt (calls w) (ConClose (con self)) = Returns v"
  then show "fst (close rt self w) = Inr ()" by (simp add: close_connected_returns)
next
  assume "is_connected self \<and> close rt self w = (Inr (), self2, w2)"
  then show "\<not> is_connected self2" using close_Inr by blast
next
  assume "\<not> is_connected self3"
  then show "\<not> is_connected (fst (run_operations rt ops (self3, w3)))"
    by (simp add: run_operations_stays_closed)
qed

theorem is_connected_lifecycle_witness:
  "init sample_runtime MSSQLSession (PStr ''host'') (PInt 1433) (PStr ''sales'') (PStr ''me'')
        (PStr ''pw'') (PBool False) sample_world =
     (Inr (sample_session MSSQLSession),
      snd (init sample_runtime MSSQLSession (PStr ''host'') (PInt 1433) (PStr ''sales'')
             (PStr ''me'') (PStr ''pw'') (PBool False) sample_world))
   \<and> is_connected (sample_session MSSQLSession)
   \<and> respond sample_runtime (calls sample_world) (ConClose (con (sample_session MSSQLSession)))
       = Returns 0
   \<and> fst (close sample_runtime (sample_session MSSQLSession) sample_world) = Inr ()
   \<and> close sample_runtime (sample_session MSSQLSession) sample_world =
       (Inr (), (sample_session MSSQLSession)\<lparr>is_connected := False\<rparr>,
        snd (snd (close sample_runtime (sample_session MSSQLSession) sample_world)))
   \<and> \<not> is_connected ((sample_session MSSQLSession)\<lparr>is_connected := False\<rparr>)
   \<and> \<not> is_connected (fst (run_operations sample_runtime
          [Select_statement (PStr ''select 1''), Enter, Close, Exec_sp (PStr ''sp1'') PNone]
          ((sample_session MSSQLSession)\<lparr>is_connected := False\<rparr>, sample_world)))"
proof -
  let ?i = "init sample_runtime MSSQLSession (PStr ''host'') (PInt 1433) (PStr ''sales'')
              (PStr ''me'') (PStr ''pw'') (PBool False) sample_world"
  let ?s = "sample_session MSSQLSession"
  have i: "?i = (Inr ?s, snd ?i)"
    using init_sample [of MSSQLSession] by (simp add: prod_eq_iff)
  have r: "respond sample_runtime (calls sample_world) (ConClose (con ?s)) = Returns 0"
    by (simp add: sample_runtime_def sample_world_def)
  have c: "close sample_runtime ?s sample_world =
             (Inr (), ?s\<lparr>is_connected := False\<rparr>, snd (snd (close sample_runtime ?s sample_world)))"
    by (simp add: close_sample)
  have s: "is_connected ?s" by (simp add: sample_session_def)
  have n: "\<not> is_connected (?s\<lparr>is_connected := False\<rparr>)" by simp
  from is_connected_lifecycle [of sample_runtime MSSQLSession "PStr ''host''" "PInt 1433"
      "PStr ''sales''" "PStr ''me''" "PStr ''pw''" "PBool False" sample_world ?s "snd ?i"
      ?s sample_world 0 "?s\<lparr>is_connected := False\<rparr>"
      "snd (snd (close sample_runtime ?s sample_world))"
      "?s\<lparr>is_connected := False\<rparr>"
      "[Select_statement (PStr ''select 1''), Enter, Close, Exec_sp (PStr ''sp1'') PNone]"
      sample_world]
  show ?thesis using i r c s n by blast
qed

text \<open>
  C3 as written has \<open>is_connected\<close> false after every call of \<open>close\<close> on a connected
  session. The flag is cleared after \<^verbatim>\<open>self.con.close()\<close>; when that call raises, \<open>close\<close>
  ends with its error and the session is still connected.
\<close>

theorem close_raises_stays_connected:
  "is_connected (sample_session MSSQLSession)
   \<and> close failing_close_runtime (sample_session MSSQLSession) sample_world =
       (Inl (DriverError 3), sample_session MSSQLSession,
        \<lparr>calls = [ConClose 1], stdout = []\<rparr>)
   \<and> is_connected (fst (snd (close failing_close_runtime (sample_session MSSQLSession)
          sample_world)))"
  by (simp add: close_def perform_def failing_close_runtime_def sample_session_def
        sample_world_def)

text \<open>
  C4. On a session that is not connected \<open>close\<close> raises nothing, returns the session as
  it was and makes no library call (the connection is not closed again); unless the session
  is silent it prints the boxed text \<^verbatim>\<open>Connection is already closed\<close>. After a first
  \<open>close\<close> on a connected session that is not silent, which printed the boxed text
  \<^verbatim>\<open>Connection closed\<close>, the second \<open>close\<close> prints the other text.
\<close>

theorem close_when_closed:
  "(\<not> is_connected self \<longrightarrow>
      close rt self w =
        (Inr (), self,
         if truthy (is_silent self) then w
         else print (repeat (length ''Connection is already closed'') ''-'' @ nl
                     @ ''Connection is already closed'' @ nl
                     @ repeat (length ''Connection is already closed'') ''-'') w)
      \<and> calls (snd (snd (close rt self w))) = calls w)
   \<and> (is_connected self1 \<and> \<not> truthy (is_silent self1)
       \<and> close rt self1 w1 = (Inr (), self2, w2) \<longrightarrow>
      (\<exists>first second.
         stdout w2 = stdout w1 @ [first]
         \<and> close rt self2 w2 = (Inr (), self2, w2\<lparr>stdout := stdout w2 @ [second]\<rparr>)
         \<and> first = repeat (length ''Connection closed'') ''-'' @ nl @ ''Connection closed''
                     @ nl @ repeat (length ''Connection closed'') ''-''
         \<and> second = repeat (length ''Connection is already closed'') ''-'' @ nl
                     @ ''Connection is already closed'' @ nl
                     @ repeat (length ''Connection is already closed'') ''-''
         \<and> first \<noteq> second))"
proof (intro conjI impI)
  assume "\<not> is_connected self"
  then show "close rt self w =
        (Inr (), self,
         if truthy (is_silent self) then w
         else print (repeat (length ''Connection is already closed'') ''-'' @ nl
                     @ ''Connection is already closed'' @ nl
                     @ repeat (length ''Connection is already closed'') ''-'') w)"
    by (rule close_not_connected)
next
  assume "\<not> is_connected self"
  then show "calls (snd (snd (close rt self w))) = calls w"
    by (rule close_calls_closed)
next
  assume a: "is_connected self1 \<and> \<not> truthy (is_silent self1)
       \<and> close rt self1 w1 = (Inr (), self2, w2)"
  then obtain v where v: "respond rt (calls w1) (ConClose (con self1)) = Returns v"
    by (cases "respond rt (calls w1) (ConClose (con self1))")
       (auto simp: close_connected_raises)
  from a have first: "self2 = self1\<lparr>is_connected := False\<rparr>"
    "w2 = print (repeat (length ''Connection closed'') ''-'' @ nl @ ''Connection closed'' @ nl
                 @ repeat (length ''Connection closed'') ''-'')
            (w1\<lparr>calls := calls w1 @ [ConClose (con self1)]\<rparr>)"
    using close_connected_returns [OF _ v, of] by auto
  then have closed: "\<not> is_connected self2" and loud: "\<not> truthy (is_silent self2)"
    using a by auto
  have "stdout w2 = stdout w1 @ [repeat (length ''Connection closed'') ''-'' @ nl
          @ ''Connection closed'' @ nl @ repeat (length ''Connection closed'') ''-'']"
    using first by (simp add: print_def)
  moreover have "close rt self2 w2 =
      (Inr (), self2, w2\<lparr>stdout := stdout w2 @ [repeat (length ''Connection is already closed'') ''-''
          @ nl @ ''Connection is already closed'' @ nl
          @ repeat (length ''Connection is already closed'') ''-'']\<rparr>)"
    using close_not_connected [OF closed, of rt w2] loud by (simp add: print_def)
  ultimately show "\<exists>first second.
         stdout w2 = stdout w1 @ [first]
         \<and> close rt self2 w2 = (Inr (), self2, w2\<lparr>stdout := stdout w2 @ [second]\<rparr>)
         \<and> first = repeat (length ''Connection closed'') ''-'' @ nl @ ''Connection closed''
                     @ nl @ repeat (length ''Connection closed'') ''-''
         \<and> second = repeat (length ''Connection is already closed'') ''-'' @ nl
                     @ ''Connection is already closed'' @ nl
                     @ repeat (length ''Connection is already closed'') ''-''
         \<and> first \<noteq> second"
    using box_messages_differ by blast
qed

theorem close_when_closed_witness:
  "\<not> is_connected ((sample_session MSSQLSession)\<lparr>is_connected := False\<rparr>)
   \<and> close sample_runtime ((sample_session MSSQLSession)\<lparr>is_connected := False\<rparr>) sample_world =
       (Inr (), (sample_session MSSQLSession)\<lparr>is_connected := False\<rparr>,
        \<lparr>calls = [], stdout = [''----------------------------'' @ nl
             @ ''Connection is already closed'' @ nl @ ''----------------------------'']\<rparr>)
   \<and> is_connected (sample_session MSSQLSession)
   \<and> \<not> truthy (is_silent (sample_session MSSQLSession))
   \<and> close sample_runtime (sample_session MSSQLSession) sample_world =
       (Inr (), (sample_session MSSQLSession)\<lparr>is_connected := False\<rparr>,
        \<lparr>calls = [ConClose 1], stdout = [''-----------------'' @ nl
             @ ''Connection closed'' @ nl @ ''-----------------'']\<rparr>)
   \<and> close sample_runtime ((sample_session MSSQLSession)\<lparr>is_connected := False\<rparr>)
         \<lparr>calls = [ConClose 1], stdout = [''-----------------'' @ nl
             @ ''Connection closed'' @ nl @ ''-----------------'']\<rparr> =
       (Inr (), (sample_session MSSQLSession)\<lparr>is_connected := False\<rparr>,
        \<lparr>calls = [ConClose 1], stdout = [''-----------------'' @ nl
             @ ''Connection closed'' @ nl @ ''-----------------'',
           ''----------------------------'' @ nl
             @ ''Connection is already closed'' @ nl @ ''----------------------------'']\<rparr>)"
proof -
  let ?s = "sample_session MSSQLSession"
  let ?w = "\<lparr>calls = [ConClose 1], stdout = [''-----------------'' @ nl
             @ ''Connection closed'' @ nl @ ''-----------------'']\<rparr>"
  have c: "close sample_runtime ?s sample_world = (Inr (), ?s\<lparr>is_connected := False\<rparr>, ?w)"
    by (simp add: close_sample print_def sample_world_def repeat_def)
  have s: "is_connected ?s" "\<not> truthy (is_silent ?s)"
    by (simp_all add: sample_session_def)
  have n: "\<not> is_connected (?s\<lparr>is_connected := False\<rparr>)" by simp
  have l: "\<not> truthy (is_silent (?s\<lparr>is_connected := False\<rparr>))"
    by (simp add: sample_session_def)
  from close_when_closed [of "?s\<lparr>is_connected := False\<rparr>" sample_runtime sample_world ?s
      sample_world "?s\<lparr>is_connected := False\<rparr>" ?w]
  show ?thesis using c s n l
    by (simp add: print_def sample_world_def repeat_def)
qed

text \<open>
  C5, as the code has it. \<^verbatim>\<open>__enter__\<close> returns the session itself, and \<^verbatim>\<open>__exit__\<close> does
  what \<open>close\<close> does, whatever exception it is told of. A \<^verbatim>\<open>with\<close> block therefore leaves
  the session and the world as \<open>close\<close> leaves them after the body, whether the body
  returned or raised; and when the connection's own \<^verbatim>\<open>close\<close> returns, the session is not
  connected afterwards and the body's value or error is the block's.
\<close>

theorem with_session_closes:
  "enter self = self
   \<and> snd (exit rt self exc w) = snd (close rt self w)
   \<and> (body self w = (r, self1, w1) \<longrightarrow>
        snd (with_session rt self body w) = snd (close rt self1 w1))
   \<and> (body self w = (r, self1, w1)
        \<and> (is_connected self1 \<longrightarrow> (\<exists>v. respond rt (calls w1) (ConClose (con self1)) = Returns v))
      \<longrightarrow> \<not> is_connected (fst (snd (with_session rt self body w)))
          \<and> fst (with_session rt self body w) =
               (case r of Inl e \<Rightarrow> Inl e | Inr v \<Rightarrow> Inr (Some v)))"
proof (intro conjI impI)
  show "enter self = self" by (simp add: enter_def)
  show "snd (exit rt self exc w) = snd (close rt self w)" by (rule exit_close)
next
  assume "body self w = (r, self1, w1)"
  then show "snd (with_session rt self body w) = snd (close rt self1 w1)"
    by (rule with_session_close)
next
  assume a: "body self w = (r, self1, w1)
        \<and> (is_connected self1 \<longrightarrow> (\<exists>v. respond rt (calls w1) (ConClose (con self1)) = Returns v))"
  then have ret: "fst (close rt self1 w1) = Inr ()" by (simp add: close_returns)
  then obtain self2 w2 where c: "close rt self1 w1 = (Inr (), self2, w2)"
    by (cases "close rt self1 w1") auto
  from a have "snd (with_session rt self body w) = (self2, w2)"
    by (simp add: with_session_close c)
  with close_Inr [OF c] show "\<not> is_connected (fst (snd (with_session rt self body w)))"
    by simp
  from a ret show "fst (with_session rt self body w) =
               (case r of Inl e \<Rightarrow> Inl e | Inr v \<Rightarrow> Inr (Some v))"
    by (simp add: with_session_result)
qed

theorem with_session_closes_witness:
  "select_statement sample_runtime (sample_session MSSQLSession) (PInt 123) sample_world =
     (Inl (TypeError ''query argument should be a string''), sample_session MSSQLSession,
      sample_world)
   \<and> respond sample_runtime (calls sample_world) (ConClose (con (sample_session MSSQLSession)))
       = Returns 0
   \<and> snd (with_session sample_runtime (sample_session MSSQLSession)
            (\<lambda>s w. select_statement sample_runtime s (PInt 123) w) sample_world) =
       snd (close sample_runtime (sample_session MSSQLSession) sample_world)
   \<and> \<not> is_connected (fst (snd (with_session sample_runtime (sample_session MSSQLSession)
            (\<lambda>s w. select_statement sample_runtime s (PInt 123) w) sample_world)))
   \<and> fst (with_session sample_runtime (sample_session MSSQLSession)
            (\<lambda>s w. select_statement sample_runtime s (PInt 123) w) sample_world) =
       Inl (TypeError ''query argument should be a string'')"
proof -
  let ?s = "sample_session MSSQLSession"
  have b: "select_statement sample_runtime ?s (PInt 123) sample_world =
             (Inl (TypeError ''query argument should be a string''), ?s, sample_world)"
    by (simp add: select_statement_def MSSQL_select_statement_def sample_session_def)
  have r: "respond sample_runtime (calls sample_world) (ConClose (con ?s)) = Returns 0"
    by (simp add: sample_runtime_def sample_world_def)
  note t = with_session_closes [of ?s sample_runtime None sample_world
      "\<lambda>s w. select_statement sample_runtime s (PInt 123) w"
      "Inl (TypeError ''query argument should be a string'')" ?s sample_world]
  from r have h: "is_connected ?s \<longrightarrow>
      (\<exists>v. respond sample_runtime (calls sample_world) (ConClose (con ?s)) = Returns v)"
    by blast
  from t b have c: "snd (with_session sample_runtime ?s
            (\<lambda>s w. select_statement sample_runtime s (PInt 123) w) sample_world) =
       snd (close sample_runtime ?s sample_world)"
    by blast
  from t b h have "\<not> is_connected (fst (snd (with_session sample_runtime ?s
            (\<lambda>s w. select_statement sample_runtime s (PInt 123) w) sample_world)))
     \<and> fst (with_session sample_runtime ?s
            (\<lambda>s w. select_statement sample_runtime s (PInt 123) w) sample_world) =
         (case Inl (TypeError ''query argument should be a string'') of
            Inl e \<Rightarrow> Inl e | Inr v \<Rightarrow> Inr (Some v))"
    by blast
  then have d: "\<not> is_connected (fst (snd (with_session sample_runtime ?s
            (\<lambda>s w. select_statement sample_runtime s (PInt 123) w) sample_world)))
     \<and> fst (with_session sample_runtime ?s
            (\<lambda>s w. select_statement sample_runtime s (PInt 123) w) sample_world) =
         Inl (TypeError ''query argument should be a string'')"
    by simp
  from b r c d show ?thesis by blast
qed

text \<open>
  C5 as written has \<open>is_connected\<close> false after the block however it ended. When
  \<^verbatim>\<open>self.con.close()\<close> raises in \<^verbatim>\<open>__exit__\<close>, the block ends with that error and the
  session is still connected, after a body that raised and after one that returned.
\<close>

theorem with_session_raises_stays_connected:
  "with_session failing_close_runtime (sample_session MSSQLSession)
       (\<lambda>s w. select_statement failing_close_runtime s (PInt 123) w) sample_world =
     (Inl (DriverError 3), sample_session MSSQLSession, \<lparr>calls = [ConClose 1], stdout = []\<rparr>)
   \<and> is_connected (fst (snd (with_session failing_close_runtime (sample_session MSSQLSession)
          (\<lambda>s w. select_statement failing_close_runtime s (PInt 123) w) sample_world)))
   \<and> with_session failing_close_runtime (sample_session MSSQLSession)
       (\<lambda>s w. select_statement failing_close_runtime s (PStr ''select 1'') w) sample_world =
     (Inl (DriverError 3), sample_session MSSQLSession,
      \<lparr>calls = [ReadSql ''set nocount on; select 1'' 1, ConClose 1], stdout = []\<rparr>)
   \<and> is_connected (fst (snd (with_session failing_close_runtime (sample_session MSSQLSession)
          (\<lambda>s w. select_statement failing_close_runtime s (PStr ''select 1'') w)
          sample_world)))"
  by (simp add: with_session_def enter_def exit_def close_def perform_def select_statement_def
        MSSQL_select_statement_def failing_close_runtime_def sample_session_def sample_world_def)

section \<open>Queries and stored procedures\<close>

text \<open>
  C6. On a \<^verbatim>\<open>PostgreSQLSession\<close>, \<open>exec_sp\<close> raises \<open>NotImplementedError\<close> for every name and
  every parameter list; the session and the world are as before, so no library was called.
\<close>

theorem PostgreSQL_exec_sp_not_implemented:
  "cls self = PostgreSQLSession \<Longrightarrow>
   exec_sp rt self sp_name params w = (Inl NotImplementedError, self, w)"
  by (simp add: exec_sp_def PostgreSQL_exec_sp_def)

theorem PostgreSQL_exec_sp_not_implemented_witness:
  "cls (sample_session PostgreSQLSession) = PostgreSQLSession
   \<and> exec_sp sample_runtime (sample_session PostgreSQLSession) (PStr ''sp1'')
        (PList [PInt 1, PInt 2]) sample_world =
       (Inl NotImplementedError, sample_session PostgreSQLSession, sample_world)"
  using PostgreSQL_exec_sp_not_implemented [of "sample_session PostgreSQLSession" sample_runtime
      "PStr ''sp1''" "PList [PInt 1, PInt 2]" sample_world]
  by (simp add: sample_session_def)

text \<open>
  C7. In both classes \<open>select_statement\<close> with a query that is not a string raises a
  \<open>TypeError\<close> and leaves the session and the world as they were: no query was run.
\<close>

theorem select_statement_type_error:
  "\<not> is_string query \<Longrightarrow>
   MSSQL_select_statement rt self query w =
     (Inl (TypeError ''query argument should be a string''), self, w)
   \<and> PostgreSQL_select_statement rt self query w =
     (Inl (TypeError ''query argument should be a string''), self, w)
   \<and> select_statement rt self query w =
     (Inl (TypeError ''query argument should be a string''), self, w)"
  by (cases query)
     (simp_all add: select_statement_def MSSQL_select_statement_def
        PostgreSQL_select_statement_def split: dialect.split)

theorem select_statement_type_error_witness:
  "\<not> is_string (PInt 123)
   \<and> MSSQL_select_statement sample_runtime (sample_session MSSQLSession) (PInt 123) sample_world =
     (Inl (TypeError ''query argument should be a string''), sample_session MSSQLSession,
      sample_world)
   \<and> PostgreSQL_select_statement sample_runtime (sample_session MSSQLSession) (PInt 123)
       sample_world =
     (Inl (TypeError ''query argument should be a string''), sample_session MSSQLSession,
      sample_world)
   \<and> select_statement sample_runtime (sample_session MSSQLSession) (PInt 123) sample_world =
     (Inl (TypeError ''query argument should be a string''), sample_session MSSQLSession,
      sample_world)"
  using select_statement_type_error [of "PInt 123" sample_runtime "sample_session MSSQLSession"
      sample_world]
  by simp

text \<open>
  C8, as the code has it. On an \<^verbatim>\<open>MSSQLSession\<close>, \<open>exec_sp\<close> with a name that is not a
  string, or with \<^verbatim>\<open>params\<close> that is neither \<^verbatim>\<open>None\<close> nor a list, raises a \<open>TypeError\<close> and
  leaves the session and the world as they were: no cursor was obtained, nothing executed
  or committed.
\<close>

theorem MSSQL_exec_sp_type_error:
  assumes "cls self = MSSQLSession"
    and "\<not> is_string sp_name \<or> (params \<noteq> PNone \<and> \<not> is_list params)"
  shows "exec_sp rt self sp_name params w =
           (Inl (TypeError (if is_string sp_name then ''params argument should be a list''
                            else ''query argument should be a string'')), self, w)"
  using assms
  by (cases sp_name; cases params) (simp_all add: exec_sp_def MSSQL_exec_sp_def)

theorem MSSQL_exec_sp_type_error_witness:
  "cls (sample_session MSSQLSession) = MSSQLSession
   \<and> PInt 7 \<noteq> PNone \<and> \<not> is_list (PInt 7)
   \<and> exec_sp sample_runtime (sample_session MSSQLSession) (PStr ''sp1'') (PInt 7) sample_world =
       (Inl (TypeError ''params argument should be a list''), sample_session MSSQLSession,
        sample_world)"
  using MSSQL_exec_sp_type_error [of "sample_session MSSQLSession" "PStr ''sp1''" "PInt 7"
      sample_runtime sample_world]
  by (simp add: sample_session_def)

text \<open>
  C8 as written has every \<^verbatim>\<open>params\<close> that is not a sequence fail. \<^verbatim>\<open>None\<close> is not a
  sequence, and with it the procedure is executed with no parameters and committed.
\<close>

theorem MSSQL_exec_sp_None:
  "\<not> is_list PNone
   \<and> exec_sp sample_runtime (sample_session MSSQLSession) (PStr ''sp1'') PNone sample_world =
       (Inr (), sample_session MSSQLSession,
        \<lparr>calls = [RawConnection 0, Cursor 0, Execute 1 ''set nocount on; exec sp1 '' [],
                  Commit 1],
         stdout = []\<rparr>)"
  by (simp add: exec_sp_def MSSQL_exec_sp_def perform_def sample_runtime_def sample_world_def
        sample_session_def)

text \<open>
  C9. On an \<^verbatim>\<open>MSSQLSession\<close>, \<open>select_statement\<close> with a string query makes one library
  call, \<^verbatim>\<open>read_sql\<close> of \<^verbatim>\<open>'set nocount on; '\<close> followed by the query, on the session's
  connection, and returns the data frame that call returns (or raises what it raises).
\<close>

theorem MSSQL_select_statement_nocount:
  "cls self = MSSQLSession \<Longrightarrow>
   select_statement rt self (PStr q) w =
     (case respond rt (calls w) (ReadSql (''set nocount on; '' @ q) (con self)) of
        Returns frame \<Rightarrow> Inr frame
      | Raises n \<Rightarrow> Inl (DriverError n),
      self,
      w\<lparr>calls := calls w @ [ReadSql (''set nocount on; '' @ q) (con self)]\<rparr>)"
  by (simp add: select_statement_def MSSQL_select_statement_def perform_def split: outcome.split)

theorem MSSQL_select_statement_nocount_witness:
  "cls (sample_session MSSQLSession) = MSSQLSession
   \<and> select_statement sample_runtime (sample_session MSSQLSession) (PStr ''select 1'')
        sample_world =
       (Inr 0, sample_session MSSQLSession,
        \<lparr>calls = [ReadSql ''set nocount on; select 1'' 1], stdout = []\<rparr>)"
  using MSSQL_select_statement_nocount [of "sample_session MSSQLSession" sample_runtime
      "''select 1''" sample_world]
  by (simp add: sample_session_def sample_runtime_def sample_world_def)

end
